theory Spec2Isabelle
  imports Main "HOL-Library.Word"
begin

section \<open>The udev stubs of \<^verbatim>\<open>src/stubs/udev_stubs.c\<close>\<close>

text \<open>
  The file holds twelve C functions that stand in for libudev when the program is
  cross-compiled. Each one discards its parameters with \<^verbatim>\<open>(void)x;\<close> and returns a
  constant. The embedding keeps one HOL function per C function, under the C name, and
  passes the state of the process explicitly: a value of type \<open>'w\<close> is everything a C
  function could read or write besides its parameters (memory, descriptors, the kernel's
  device tables). It is a type variable because no stub looks at it.
\<close>

subsection \<open>Data\<close>

text \<open>
  \<^verbatim>\<open>typedef struct udev udev;\<close> and its two siblings declare structures whose fields this
  file never sees.
\<close>

typedecl udev
typedecl udev_monitor
typedecl udev_device

text \<open>
  A pointer is \<^verbatim>\<open>NULL\<close> or an address; the type parameter records what it points to and
  has no values of its own here.
\<close>

datatype 'a ptr = NULL | Ptr nat

text \<open>
  A \<^verbatim>\<open>const char*\<close> is \<^verbatim>\<open>NULL\<close> (\<open>None\<close>) or points to a NUL-terminated string
  (\<open>Some s\<close>, where \<open>s\<close> may be empty). C's \<^verbatim>\<open>int\<close> is a 32-bit word read in two's
  complement (\<open>sint\<close>), so that \<^verbatim>\<open>-1\<close> is the word of all ones.
\<close>

type_synonym c_string = "string option"
type_synonym c_int = "32 word"

subsection \<open>Statements\<close>

text \<open>
  \<^verbatim>\<open>(void)e;\<close> evaluates the parameter \<open>e\<close> as a value, drops it, and goes on in the same
  state.
\<close>

definition discard :: "'a \<Rightarrow> 'w \<Rightarrow> 'w" where
  "discard e w = w"

subsection \<open>The twelve functions\<close>

text \<open>
  A function returning a value maps the state to the value and the state after the call;
  a \<^verbatim>\<open>void\<close> function maps the state to the state after the call.
\<close>

definition udev_new :: "'w \<Rightarrow> udev ptr \<times> 'w" where
  "udev_new w = (NULL, w)"

definition udev_unref :: "udev ptr \<Rightarrow> 'w \<Rightarrow> 'w" where
  "udev_unref udev w = discard udev w"

definition udev_monitor_new_from_netlink ::
    "udev ptr \<Rightarrow> c_string \<Rightarrow> 'w \<Rightarrow> udev_monitor ptr \<times> 'w" where
  "udev_monitor_new_from_netlink udev name w =
     (let w1 = discard udev w;
          w2 = discard name w1
      in (NULL, w2))"

definition udev_monitor_filter_add_match_subsystem_devtype ::
    "udev_monitor ptr \<Rightarrow> c_string \<Rightarrow> c_string \<Rightarrow> 'w \<Rightarrow> c_int \<times> 'w" where
  "udev_monitor_filter_add_match_subsystem_devtype udev_monitor subsystem devtype w =
     (let w1 = discard udev_monitor w;
          w2 = discard subsystem w1;
          w3 = discard devtype w2
      in (- 1, w3))"

definition udev_monitor_enable_receiving :: "udev_monitor ptr \<Rightarrow> 'w \<Rightarrow> c_int \<times> 'w" where
  "udev_monitor_enable_receiving udev_monitor w =
     (let w1 = discard udev_monitor w in (- 1, w1))"

definition udev_monitor_get_fd :: "udev_monitor ptr \<Rightarrow> 'w \<Rightarrow> c_int \<times> 'w" where
  "udev_monitor_get_fd udev_monitor w =
     (let w1 = discard udev_monitor w in (- 1, w1))"

definition udev_monitor_unref :: "udev_monitor ptr \<Rightarrow> 'w \<Rightarrow> 'w" where
  "udev_monitor_unref udev_monitor w = discard udev_monitor w"

definition udev_monitor_receive_device ::
    "udev_monitor ptr \<Rightarrow> 'w \<Rightarrow> udev_device ptr \<times> 'w" where
  "udev_monitor_receive_device udev_monitor w =
     (let w1 = discard udev_monitor w in (NULL, w1))"

definition udev_device_get_action :: "udev_device ptr \<Rightarrow> 'w \<Rightarrow> c_string \<times> 'w" where
  "udev_device_get_action udev_device w =
     (let w1 = discard udev_device w in (None, w1))"

definition udev_device_get_devnode :: "udev_device ptr \<Rightarrow> 'w \<Rightarrow> c_string \<times> 'w" where
  "udev_device_get_devnode udev_device w =
     (let w1 = discard udev_device w in (None, w1))"

definition udev_device_get_sysattr_value ::
    "udev_device ptr \<Rightarrow> c_string \<Rightarrow> 'w \<Rightarrow> c_string \<times> 'w" where
  "udev_device_get_sysattr_value udev_device sysattr w =
     (let w1 = discard udev_device w;
          w2 = discard sysattr w1
      in (None, w2))"

definition udev_device_unref :: "udev_device ptr \<Rightarrow> 'w \<Rightarrow> 'w" where
  "udev_device_unref udev_device w = discard udev_device w"

subsection \<open>Callers\<close>

text \<open>
  A client of the library is a sequence of calls. \<open>call\<close> names a function together with
  its arguments, \<open>retval\<close> is what came back, \<open>exec\<close> performs one call and \<open>run\<close> a whole
  sequence, threading the state from each call to the next.
\<close>

datatype call =
    Call_udev_new
  | Call_udev_unref "udev ptr"
  | Call_udev_monitor_new_from_netlink "udev ptr" c_string
  | Call_udev_monitor_filter_add_match_subsystem_devtype "udev_monitor ptr" c_string c_string
  | Call_udev_monitor_enable_receiving "udev_monitor ptr"
  | Call_udev_monitor_get_fd "udev_monitor ptr"
  | Call_udev_monitor_unref "udev_monitor ptr"
  | Call_udev_monitor_receive_device "udev_monitor ptr"
  | Call_udev_device_get_action "udev_device ptr"
  | Call_udev_device_get_devnode "udev_device ptr"
  | Call_udev_device_get_sysattr_value "udev_device ptr" c_string
  | Call_udev_device_unref "udev_device ptr"

datatype retval =
    Ret_void
  | Ret_int c_int
  | Ret_udev "udev ptr"
  | Ret_monitor "udev_monitor ptr"
  | Ret_device "udev_device ptr"
  | Ret_string c_string

fun exec :: "call \<Rightarrow> 'w \<Rightarrow> retval \<times> 'w" where
  "exec Call_udev_new w = (let (r, w1) = udev_new w in (Ret_udev r, w1))"
| "exec (Call_udev_unref u) w = (Ret_void, udev_unref u w)"
| "exec (Call_udev_monitor_new_from_netlink u name) w =
     (let (r, w1) = udev_monitor_new_from_netlink u name w in (Ret_monitor r, w1))"
| "exec (Call_udev_monitor_filter_add_match_subsystem_devtype m subsystem devtype) w =
     (let (r, w1) = udev_monitor_filter_add_match_subsystem_devtype m subsystem devtype w
      in (Ret_int r, w1))"
| "exec (Call_udev_monitor_enable_receiving m) w =
     (let (r, w1) = udev_monitor_enable_receiving m w in (Ret_int r, w1))"
| "exec (Call_udev_monitor_get_fd m) w =
     (let (r, w1) = udev_monitor_get_fd m w in (Ret_int r, w1))"
| "exec (Call_udev_monitor_unref m) w = (Ret_void, udev_monitor_unref m w)"
| "exec (Call_udev_monitor_receive_device m) w =
     (let (r, w1) = udev_monitor_receive_device m w in (Ret_device r, w1))"
| "exec (Call_udev_device_get_action d) w =
     (let (r, w1) = udev_device_get_action d w in (Ret_string r, w1))"
| "exec (Call_udev_device_get_devnode d) w =
     (let (r, w1) = udev_device_get_devnode d w in (Ret_string r, w1))"
| "exec (Call_udev_device_get_sysattr_value d sysattr) w =
     (let (r, w1) = udev_device_get_sysattr_value d sysattr w in (Ret_string r, w1))"
| "exec (Call_udev_device_unref d) w = (Ret_void, udev_device_unref d w)"

fun run :: "call list \<Rightarrow> 'w \<Rightarrow> retval list \<times> 'w" where
  "run [] w = ([], w)"
| "run (c # cs) w =
     (let (r, w1) = exec c w;
          (rs, w2) = run cs w1
      in (r # rs, w2))"

text \<open>
  The failure sentinels: \<^verbatim>\<open>NULL\<close> where a pointer or a string is returned, \<^verbatim>\<open>-1\<close> where
  an \<^verbatim>\<open>int\<close> is returned; a \<^verbatim>\<open>void\<close> function returns nothing.
\<close>

fun is_sentinel :: "retval \<Rightarrow> bool" where
  "is_sentinel Ret_void = True"
| "is_sentinel (Ret_int r) = (r = - 1)"
| "is_sentinel (Ret_udev p) = (p = NULL)"
| "is_sentinel (Ret_monitor p) = (p = NULL)"
| "is_sentinel (Ret_device p) = (p = NULL)"
| "is_sentinel (Ret_string s) = (s = None)"

text \<open>
  An \<^verbatim>\<open>int\<close>-returning udev call reports success as a value that is not negative.
\<close>

definition succeeded :: "c_int \<Rightarrow> bool" where
  "succeeded r = (0 \<le> sint r)"

subsection \<open>Client scenarios\<close>

text \<open>
  Registering a list of (subsystem, devtype) filters on one monitor, in order, and
  collecting the return codes.
\<close>

fun add_filters ::
    "udev_monitor ptr \<Rightarrow> (c_string \<times> c_string) list \<Rightarrow> 'w \<Rightarrow> c_int list \<times> 'w" where
  "add_filters m [] w = ([], w)"
| "add_filters m ((subsystem, devtype) # fs) w =
     (let (r, w1) = udev_monitor_filter_add_match_subsystem_devtype m subsystem devtype w;
          (rs, w2) = add_filters m fs w1
      in (r # rs, w2))"

text \<open>
  The filters \<open>fs\<close>, then \<^verbatim>\<open>udev_monitor_enable_receiving\<close>, then one more filter: the
  return codes of the early filters, of the activation and of the late filter, and the
  state at the end.
\<close>

definition filters_then_activate ::
    "udev_monitor ptr \<Rightarrow> (c_string \<times> c_string) list \<Rightarrow> c_string \<times> c_string \<Rightarrow> 'w
     \<Rightarrow> c_int list \<times> c_int \<times> c_int \<times> 'w" where
  "filters_then_activate m fs late w =
     (let (early, w1) = add_filters m fs w;
          (activation, w2) = udev_monitor_enable_receiving m w1;
          (after, w3) =
            udev_monitor_filter_add_match_subsystem_devtype m (fst late) (snd late) w2
      in (early, activation, after, w3))"

text \<open>\<^verbatim>\<open>udev_monitor_enable_receiving\<close> called \<open>n\<close> times in a row on one monitor.\<close>

fun activate_times :: "nat \<Rightarrow> udev_monitor ptr \<Rightarrow> 'w \<Rightarrow> c_int list \<times> 'w" where
  "activate_times 0 m w = ([], w)"
| "activate_times (Suc n) m w =
     (let (r, w1) = udev_monitor_enable_receiving m w;
          (rs, w2) = activate_times n m w1
      in (r # rs, w2))"

subsection \<open>Action decoding\<close>

datatype action_kind = Added | Removed | Changed | Unknown

text \<open>
  Modelled from the spec: the Event Reader's decoding of the raw action string is not in
  the source tree, which holds the stubs only. The spec decodes the raw string into the
  enumeration Added, Removed, Changed, Unknown, the strings being "add", "remove" and
  "change", and maps every other raw value to Unknown.
\<close>

definition decode_action :: "c_string \<Rightarrow> action_kind" where
  "decode_action raw =
     (if raw = Some ''add'' then Added
      else if raw = Some ''remove'' then Removed
      else if raw = Some ''change'' then Changed
      else Unknown)"

subsection \<open>Reading one event\<close>



section \<open>Facts about single calls\<close>

lemmas stub_defs =
  discard_def udev_new_def udev_unref_def udev_monitor_new_from_netlink_def
  udev_monitor_filter_add_match_subsystem_devtype_def udev_monitor_enable_receiving_def
  udev_monitor_get_fd_def udev_monitor_unref_def udev_monitor_receive_device_def
  udev_device_get_action_def udev_device_get_devnode_def
  udev_device_get_sysattr_value_def udev_device_unref_def

lemma exec_state: "snd (exec c w) = w"
  by (cases c) (simp_all add: stub_defs)

lemma exec_sentinel: "is_sentinel (fst (exec c w))"
  by (cases c) (simp_all add: stub_defs)

lemma run_state: "snd (run cs w) = w"
proof (induction cs arbitrary: w)
  case Nil
  show ?case by simp
next
  case (Cons c cs)
  obtain r w1 where e: "exec c w = (r, w1)" by (cases "exec c w")
  from e exec_state [of c w] have w1: "w1 = w" by simp
  obtain rs w2 where r: "run cs w = (rs, w2)" by (cases "run cs w")
  from r Cons.IH [of w] have "w2 = w" by simp
  with e w1 r show ?case by simp
qed

lemma run_length: "length (fst (run cs w)) = length cs"
proof (induction cs arbitrary: w)
  case Nil
  show ?case by simp
next
  case (Cons c cs)
  obtain r w1 where e: "exec c w = (r, w1)" by (cases "exec c w")
  obtain rs w2 where r: "run cs w1 = (rs, w2)" by (cases "run cs w1")
  from r Cons.IH [of w1] have "length rs = length cs" by simp
  with e r show ?case by simp
qed

lemma run_sentinels: "list_all is_sentinel (fst (run cs w))"
proof (induction cs arbitrary: w)
  case Nil
  show ?case by simp
next
  case (Cons c cs)
  obtain r w1 where e: "exec c w = (r, w1)" by (cases "exec c w")
  from e exec_sentinel [of c w] have s: "is_sentinel r" by simp
  obtain rs w2 where r: "run cs w1 = (rs, w2)" by (cases "run cs w1")
  from r Cons.IH [of w1] have "list_all is_sentinel rs" by simp
  with e s r show ?case by simp
qed

lemma add_filters_all_fail:
  "add_filters m fs w = (replicate (length fs) (- 1), w)"
proof (induction fs arbitrary: w)
  case Nil
  show ?case by simp
next
  case (Cons f fs)
  obtain subsystem devtype where f: "f = (subsystem, devtype)" by (cases f)
  have step: "udev_monitor_filter_add_match_subsystem_devtype m subsystem devtype w = (- 1, w)"
    by (simp add: stub_defs)
  from f step Cons.IH [of w] show ?case by simp
qed

lemma activate_times_all_fail:
  "activate_times n m w = (replicate n (- 1), w)"
proof (induction n arbitrary: w)
  case 0
  show ?case by simp
next
  case (Suc n)
  have step: "udev_monitor_enable_receiving m w = (- 1, w)"
    by (simp add: stub_defs)
  from step Suc.IH [of w] show ?case by simp
qed

section \<open>Properties of the stubs\<close>

text \<open>
  C1. Every function of the stub file returns its failure sentinel for all arguments
  (\<^verbatim>\<open>NULL\<close> where it returns a pointer or a string, \<^verbatim>\<open>-1\<close> where it returns an \<^verbatim>\<open>int\<close>,
  nothing where it is \<^verbatim>\<open>void\<close>) and leaves the state as it found it. The word returned by
  the \<^verbatim>\<open>int\<close> functions reads as the integer \<^verbatim>\<open>-1\<close>.
\<close>

theorem stubs_return_sentinel_and_do_nothing:
  "udev_new w = (NULL, w)
   \<and> udev_unref u w = w
   \<and> udev_monitor_new_from_netlink u name w = (NULL, w)
   \<and> udev_monitor_filter_add_match_subsystem_devtype m subsystem devtype w = (- 1, w)
   \<and> udev_monitor_enable_receiving m w = (- 1, w)
   \<and> udev_monitor_get_fd m w = (- 1, w)
   \<and> udev_monitor_unref m w = w
   \<and> udev_monitor_receive_device m w = (NULL, w)
   \<and> udev_device_get_action d w = (None, w)
   \<and> udev_device_get_devnode d w = (None, w)
   \<and> udev_device_get_sysattr_value d sysattr w = (None, w)
   \<and> udev_device_unref d w = w
   \<and> sint (fst (udev_monitor_filter_add_match_subsystem_devtype m subsystem devtype w)) = - 1
   \<and> sint (fst (udev_monitor_enable_receiving m w)) = - 1
   \<and> sint (fst (udev_monitor_get_fd m w)) = - 1
   \<and> is_sentinel (fst (exec c w)) \<and> snd (exec c w) = w"
  by (simp add: stub_defs exec_state exec_sentinel)

text \<open>
  C2. Opening a context always fails: \<^verbatim>\<open>udev_new\<close> returns \<^verbatim>\<open>NULL\<close> in every state, also
  after any sequence of earlier calls, and never the address of a context.
\<close>

theorem udev_new_always_null:
  "udev_new w = (NULL, w)
   \<and> fst (udev_new (snd (run cs w))) = NULL
   \<and> fst (udev_new w) \<noteq> Ptr a"
  by (simp add: udev_new_def)

text \<open>
  C3, as the claim states it, asks that filters added before activation succeed. Here a
  single filter ("tty", none) is added on a fresh monitor before activation: its return
  code is \<^verbatim>\<open>-1\<close>, which is not a success.
\<close>

theorem filter_before_activation_counterexample:
  "fst (filters_then_activate (Ptr 1) [(Some ''tty'', None)] (Some ''usb'', None) (0::nat))
     = [- 1]
   \<and> \<not> list_all succeeded
         (fst (filters_then_activate (Ptr 1) [(Some ''tty'', None)] (Some ''usb'', None)
            (0::nat)))"
  by (simp add: filters_then_activate_def stub_defs succeeded_def)

text \<open>
  C3, amended. For every monitor, every list of filters added before
  \<^verbatim>\<open>udev_monitor_enable_receiving\<close> and every filter added after it, the late filter
  addition returns \<^verbatim>\<open>-1\<close>; so does each of the early ones, and so does the activation
  itself; the state at the end is the state at the start.
\<close>

theorem filters_fail_before_and_after_activation:
  "filters_then_activate m fs late w = (replicate (length fs) (- 1), - 1, - 1, w)"
  by (simp add: filters_then_activate_def add_filters_all_fail stub_defs)

text \<open>
  C4, as the claim states it, asks that the first activation of a subscription begins
  receiving. The first \<^verbatim>\<open>udev_monitor_enable_receiving\<close> on a fresh monitor returns
  \<^verbatim>\<open>-1\<close>, which is not a success, and the monitor has no descriptor afterwards.
\<close>

theorem first_activation_counterexample:
  "fst (activate_times 1 (Ptr 1) (0::nat)) = [- 1]
   \<and> \<not> succeeded (fst (udev_monitor_enable_receiving (Ptr 1) (0::nat)))
   \<and> fst (udev_monitor_get_fd (Ptr 1) (snd (activate_times 1 (Ptr 1) (0::nat)))) = - 1"
  by (simp add: stub_defs succeeded_def)

text \<open>
  C4, amended. \<^verbatim>\<open>udev_monitor_enable_receiving\<close> never begins receiving: called any
  number of times on a monitor, every call, the first and the second included, returns
  \<^verbatim>\<open>-1\<close> and leaves the state as it was; afterwards the monitor still has no descriptor
  and delivers no device.
\<close>

theorem activation_always_fails:
  "activate_times n m w = (replicate n (- 1), w)
   \<and> activate_times 2 m w = ([- 1, - 1], w)
   \<and> udev_monitor_get_fd m (snd (activate_times n m w)) = (- 1, w)
   \<and> udev_monitor_receive_device m (snd (activate_times n m w)) = (NULL, w)"
proof -
  have a: "activate_times n m w = (replicate n (- 1), w)" for n
    by (rule activate_times_all_fail)
  have two: "replicate 2 (- 1 :: c_int) = [- 1, - 1]"
    by (simp add: numeral_2_eq_2)
  from a [of 2] two have b: "activate_times 2 m w = ([- 1, - 1], w)"
    by simp
  from a [of n] have c: "snd (activate_times n m w) = w"
    by simp
  show ?thesis
    by (simp only: a [of n] b c) (simp add: stub_defs)
qed

text \<open>
  C5. Decoding an action never fails and yields Unknown for every raw value outside
  "add", "remove" and "change", the \<^verbatim>\<open>NULL\<close> that the stub's
  \<^verbatim>\<open>udev_device_get_action\<close> returns included.
\<close>

theorem decode_action_unknown:
  "raw = fst (udev_device_get_action d w)
     \<or> raw \<notin> {Some ''add'', Some ''remove'', Some ''change''}
   \<Longrightarrow> decode_action raw = Unknown"
  by (auto simp add: decode_action_def stub_defs)

theorem decode_action_unknown_witness:
  "Some ''bind'' \<notin> {Some ''add'', Some ''remove'', Some ''change''}
   \<and> decode_action (Some ''bind'') = Unknown
   \<and> decode_action (fst (udev_device_get_action NULL (0::nat))) = Unknown"
proof -
  have h1: "Some ''bind'' \<notin> {Some ''add'', Some ''remove'', Some ''change''}"
    by simp
  from h1 have "decode_action (Some ''bind'') = Unknown"
    by (intro decode_action_unknown [of _ NULL "0::nat"] disjI2)
  moreover have "decode_action (fst (udev_device_get_action NULL (0::nat))) = Unknown"
    by (rule decode_action_unknown [of _ NULL "0::nat"]) simp
  ultimately show ?thesis using h1 by simp
qed

text \<open>
  C6. \<^verbatim>\<open>udev_device_get_devnode\<close> reports the device node of every device as absent
  (\<^verbatim>\<open>NULL\<close>), never as the empty string, and changes nothing.
\<close>

theorem devnode_absent_not_empty:
  "udev_device_get_devnode d w = (None, w)
   \<and> fst (udev_device_get_devnode d w) \<noteq> Some ''''
   \<and> fst (udev_device_get_devnode d (snd (run cs w))) = None"
  by (simp add: stub_defs run_state)


text \<open>
  C8. Creating a monitor fails the same way for every context and every source name:
  \<^verbatim>\<open>udev_monitor_new_from_netlink\<close> returns \<^verbatim>\<open>NULL\<close> for "udev", for any other name and
  for no name at all.
\<close>

theorem monitor_new_always_null:
  "udev_monitor_new_from_netlink u name w = (NULL, w)
   \<and> fst (udev_monitor_new_from_netlink u (Some ''udev'') w) = NULL
   \<and> fst (udev_monitor_new_from_netlink u None w) = NULL
   \<and> fst (udev_monitor_new_from_netlink u name w)
       = fst (udev_monitor_new_from_netlink u (Some ''udev'') w)"
  by (simp add: stub_defs)

text \<open>
  C9. The value a stub returns does not depend on its arguments or on the state it is
  called in: two calls of the same function, with any two argument lists in any two
  states, return equal values; for the \<^verbatim>\<open>void\<close> functions, which return nothing, the
  state after the call does not depend on the argument.
\<close>

theorem stubs_ignore_arguments:
  "fst (udev_new w1) = fst (udev_new w2)
   \<and> udev_unref u1 w = udev_unref u2 w
   \<and> fst (udev_monitor_new_from_netlink u1 name1 w1)
       = fst (udev_monitor_new_from_netlink u2 name2 w2)
   \<and> fst (udev_monitor_filter_add_match_subsystem_devtype m1 subsystem1 devtype1 w1)
       = fst (udev_monitor_filter_add_match_subsystem_devtype m2 subsystem2 devtype2 w2)
   \<and> fst (udev_monitor_enable_receiving m1 w1) = fst (udev_monitor_enable_receiving m2 w2)
   \<and> fst (udev_monitor_get_fd m1 w1) = fst (udev_monitor_get_fd m2 w2)
   \<and> udev_monitor_unref m1 w = udev_monitor_unref m2 w
   \<and> fst (udev_monitor_receive_device m1 w1) = fst (udev_monitor_receive_device m2 w2)
   \<and> fst (udev_device_get_action d1 w1) = fst (udev_device_get_action d2 w2)
   \<and> fst (udev_device_get_devnode d1 w1) = fst (udev_device_get_devnode d2 w2)
   \<and> fst (udev_device_get_sysattr_value d1 sysattr1 w1)
       = fst (udev_device_get_sysattr_value d2 sysattr2 w2)
   \<and> udev_device_unref d1 w = udev_device_unref d2 w"
  by (simp add: stub_defs)

text \<open>
  C10. Every stub returns normally for any arguments, \<^verbatim>\<open>NULL\<close> included, without
  touching what its pointers designate: called with \<^verbatim>\<open>NULL\<close> it returns its sentinel and
  the state it was given; each release function has no effect on \<^verbatim>\<open>NULL\<close>, and none
  when called again on a handle it has already been given; every sequence of calls
  returns one result per call and ends in the state it started in.
\<close>

theorem stubs_total_and_safe:
  "udev_unref NULL w = w
   \<and> udev_monitor_unref NULL w = w
   \<and> udev_device_unref NULL w = w
   \<and> udev_unref u (udev_unref u w) = w
   \<and> udev_monitor_unref m (udev_monitor_unref m w) = w
   \<and> udev_device_unref d (udev_device_unref d w) = w
   \<and> udev_monitor_new_from_netlink NULL None w = (NULL, w)
   \<and> udev_monitor_filter_add_match_subsystem_devtype NULL None None w = (- 1, w)
   \<and> udev_monitor_enable_receiving NULL w = (- 1, w)
   \<and> udev_monitor_get_fd NULL w = (- 1, w)
   \<and> udev_monitor_receive_device NULL w = (NULL, w)
   \<and> udev_device_get_action NULL w = (None, w)
   \<and> udev_device_get_devnode NULL w = (None, w)
   \<and> udev_device_get_sysattr_value NULL None w = (None, w)
   \<and> (\<exists>r. exec c w = (r, w))
   \<and> length (fst (run cs w)) = length cs
   \<and> snd (run cs w) = w"
proof -
  have e: "\<exists>r. exec c w = (r, w)"
    using exec_state [of c w] by (cases "exec c w") simp
  show ?thesis
    by (simp add: stub_defs e run_length run_state)
qed

end
